theory Spec2Isabelle
  imports Main "HOL-Library.Sublist"
begin

section \<open>The construction chatbot (\<^verbatim>\<open>cchatbot.py\<close>)\<close>

text \<open>
  Python \<^verbatim>\<open>str\<close> values are modelled as \<^typ>\<open>string\<close>. A character outside ASCII
  stands as the bytes of its UTF-8 encoding, which is how the emoji of the source's
  literals are written below. Python's \<^verbatim>\<open>a in b\<close> on strings is the contiguous
  substring test, \<^const>\<open>sublist\<close>; on well-formed UTF-8 the test on bytes and the test
  on code points agree.
\<close>

subsection \<open>Strings\<close>

text \<open>\<^verbatim>\<open>sep.join(parts)\<close>\<close>

fun join :: "string \<Rightarrow> string list \<Rightarrow> string" where
  "join sep [] = []"
| "join sep [p] = p"
| "join sep (p # q # ps) = p @ sep @ join sep (q # ps)"

definition newline :: string where
  "newline = [CHR 0x0A]"

subsection \<open>Globals and external collaborators\<close>

datatype error = Error string

text \<open>
  The module-level globals \<^verbatim>\<open>knowledge_base\<close> (the dict read from
  \<^verbatim>\<open>construction_glossary.json\<close>, in its enumeration order) and \<^verbatim>\<open>nlp\<close> (the
  text2text pipeline; the value is the \<^verbatim>\<open>generated_text\<close> of its first candidate, or
  the exception it raises), together with TextBlob's corrector behind
  \<^verbatim>\<open>correct_spelling\<close>. The glossary file and both libraries are outside the
  repository, so they are parameters of the model.

  \<^verbatim>\<open>str.lower()\<close> is the interpreter's: it follows the Unicode case mappings, on every
  cased character and not only on the letters A to Z. It is a parameter as well,
  \<open>str_lower\<close>, so that every theorem below holds of whatever function it is.
\<close>

record env =
  str_lower :: "string \<Rightarrow> string"
  knowledge_base :: "(string \<times> string) list"
  nlp :: "string \<Rightarrow> error + string"
  textblob_correct :: "string \<Rightarrow> error + string"

subsection \<open>Helper functions\<close>

text \<open>\<^verbatim>\<open>def correct_spelling(text): return str(TextBlob(text).correct())\<close>\<close>

definition correct_spelling :: "env \<Rightarrow> string \<Rightarrow> error + string" where
  "correct_spelling e text = textblob_correct e text"

text \<open>
  \<^verbatim>\<open>def is_construction_related(text):
      return any(word in text.lower() for word in knowledge_base.keys())\<close>
\<close>

definition is_construction_related :: "env \<Rightarrow> string \<Rightarrow> bool" where
  "is_construction_related e text =
     list_ex (\<lambda>word. sublist word (str_lower e text)) (map fst (knowledge_base e))"

text \<open>
  \<^verbatim>\<open>def get_knowledge_answer(user_input):
      for key, value in knowledge_base.items():
          if key in user_input.lower():
              return value
      return None\<close>
\<close>

fun knowledge_loop ::
  "(string \<Rightarrow> string) \<Rightarrow> (string \<times> string) list \<Rightarrow> string \<Rightarrow> string option" where
  "knowledge_loop low [] user_input = None"
| "knowledge_loop low ((key, value) # items) user_input =
     (if sublist key (low user_input) then Some value
      else knowledge_loop low items user_input)"

definition get_knowledge_answer :: "env \<Rightarrow> string \<Rightarrow> string option" where
  "get_knowledge_answer e user_input =
     knowledge_loop (str_lower e) (knowledge_base e) user_input"

text \<open>
  Python's truth value of \<^verbatim>\<open>kb_answer\<close>: neither \<^verbatim>\<open>None\<close> nor the empty string
  (the glossary's answers are strings, as in the data model).
\<close>

fun truthy :: "string option \<Rightarrow> bool" where
  "truthy None = False"
| "truthy (Some s) = (s \<noteq> [])"

subsection \<open>The prompt\<close>

text \<open>\<^verbatim>\<open>history[-3:]\<close>\<close>

definition last3 :: "'a list \<Rightarrow> 'a list" where
  "last3 history = drop (length history - 3) history"

text \<open>\<^verbatim>\<open>f"{u}: {m}"\<close>\<close>

definition format_turn :: "string \<times> string \<Rightarrow> string" where
  "format_turn t = fst t @ '': '' @ snd t"

definition context_of :: "(string \<times> string) list \<Rightarrow> string" where
  "context_of history = join newline (map format_turn (last3 history))"

text \<open>
  The f-string of \<^verbatim>\<open>generate_response\<close>, cut at its two fields. The literal opens
  with a line break and every line of it carries the four blanks of the source's
  indentation.
\<close>

definition prompt_header :: string where
  "prompt_header =
     newline @ ''    You are a civil engineer expert.'' @
     newline @ ''    Answer clearly and only about construction materials, IS codes, and civil engineering.'' @
     newline @ ''    If irrelevant, reply: '' @ [CHR 0x22] @
       ''Sorry, I only answer construction-related questions.'' @ [CHR 0x22] @
     newline @
     newline @ ''    Chat history:'' @
     newline @ ''    ''"

definition prompt_user :: string where
  "prompt_user = newline @ newline @ ''    User: ''"

definition prompt_end :: string where
  "prompt_end = newline @ ''    ''"

definition build_prompt :: "string \<Rightarrow> (string \<times> string) list \<Rightarrow> string" where
  "build_prompt user_input history =
     prompt_header @ context_of history @ prompt_user @ user_input @ prompt_end"

text \<open>
  The prompt template as the specification prints it (section 4.6), for comparison
  with the literal above: no line break before the first line, no indentation, and
  nothing after the user line.
\<close>

definition spec_prompt :: "string \<Rightarrow> string \<Rightarrow> string" where
  "spec_prompt context user_input =
     ''You are a civil engineer expert.'' @
     newline @ ''Answer clearly and only about construction materials, IS codes, and civil engineering.'' @
     newline @ ''If irrelevant, reply: '' @ [CHR 0x22] @
       ''Sorry, I only answer construction-related questions.'' @ [CHR 0x22] @
     newline @
     newline @ ''Chat history:'' @
     newline @ context @
     newline @
     newline @ ''User: '' @ user_input"

subsection \<open>\<^verbatim>\<open>generate_response\<close>\<close>

text \<open>
  The calls a run makes to the Knowledge Lookup and to the model are recorded, in
  order, with their argument.
\<close>

datatype call = Knowledge_Lookup string | Model_Call string

text \<open>
  \<^verbatim>\<open>def generate_response(user_input, history):
      kb_answer = get_knowledge_answer(user_input)
      if kb_answer:
          return kb_answer
      context = ...; prompt = ...
      response = nlp(prompt, max_length=250, num_return_sequences=1)[0]["generated_text"]
      return response\<close>
  The value is the returned string or the exception that escapes, with the calls made.
  In the first branch \<^verbatim>\<open>kb_answer\<close> is truthy, hence not \<^verbatim>\<open>None\<close>.
\<close>

definition generate_response ::
  "env \<Rightarrow> string \<Rightarrow> (string \<times> string) list \<Rightarrow> (error + string) \<times> call list" where
  "generate_response e user_input history =
     (let kb_answer = get_knowledge_answer e user_input in
      if truthy kb_answer then (Inr (the kb_answer), [Knowledge_Lookup user_input])
      else
        let prompt = build_prompt user_input history in
        (nlp e prompt, [Knowledge_Lookup user_input, Model_Call prompt]))"

subsection \<open>The submit handler\<close>

definition speaker_you :: string where
  "speaker_you = [CHR 0xF0, CHR 0x9F, CHR 0x91, CHR 0xA4] @ '' You''"

definition speaker_bot :: string where
  "speaker_bot = [CHR 0xF0, CHR 0x9F, CHR 0xA4, CHR 0x96] @ '' Bot''"

definition refusal :: string where
  "refusal = [CHR 0xE2, CHR 0x9A, CHR 0xA0, CHR 0xEF, CHR 0xB8, CHR 0x8F] @
     '' Sorry, I only answer construction-related questions.''"

text \<open>\<^verbatim>\<open>f"(wrench) Did you mean: **{corrected}** ?"\<close>\<close>

definition did_you_mean :: "string \<Rightarrow> string" where
  "did_you_mean corrected =
     [CHR 0xF0, CHR 0x9F, CHR 0x94, CHR 0xA7] @ '' Did you mean: **'' @ corrected @ ''** ?''"

datatype outcome = Skipped | Raised error | Answered string

text \<open>
  What one run of the script's last block leaves behind: the session history, the
  messages shown with \<^verbatim>\<open>st.info\<close>, the recorded calls, and how the block ended
  (the condition was false, an exception escaped, or \<^verbatim>\<open>answer\<close> was computed and
  stored).
\<close>

record run =
  history :: "(string \<times> string) list"
  infos :: "string list"
  calls :: "call list"
  outcome :: outcome

text \<open>
  \<^verbatim>\<open>if submitted and user_input:
      corrected = correct_spelling(user_input)
      if not is_construction_related(corrected):
          answer = "(warning sign) Sorry, I only answer construction-related questions."
      else:
          if corrected.lower() != user_input.lower():
              st.info(...)
          answer = generate_response(corrected, st.session_state.history)
      st.session_state.history.append(("(bust) You", user_input))
      st.session_state.history.append(("(robot) Bot", answer))\<close>
  An exception leaves the block at once: the two appends are not reached.
\<close>

definition on_submit :: "env \<Rightarrow> bool \<Rightarrow> string \<Rightarrow> (string \<times> string) list \<Rightarrow> run" where
  "on_submit e submitted user_input h =
     (if submitted \<and> user_input \<noteq> [] then
        (case correct_spelling e user_input of
           Inl x \<Rightarrow> \<lparr>history = h, infos = [], calls = [], outcome = Raised x\<rparr>
         | Inr corrected \<Rightarrow>
             if \<not> is_construction_related e corrected then
               \<lparr>history = h @ [(speaker_you, user_input), (speaker_bot, refusal)],
                infos = [], calls = [], outcome = Answered refusal\<rparr>
             else
               let shown = (if str_lower e corrected \<noteq> str_lower e user_input
                            then [did_you_mean corrected] else []) in
               (case generate_response e corrected h of
                  (Inl x, cs) \<Rightarrow> \<lparr>history = h, infos = shown, calls = cs, outcome = Raised x\<rparr>
                | (Inr answer, cs) \<Rightarrow>
                    \<lparr>history = h @ [(speaker_you, user_input), (speaker_bot, answer)],
                     infos = shown, calls = cs, outcome = Answered answer\<rparr>))
      else \<lparr>history = h, infos = [], calls = [], outcome = Skipped\<rparr>)"

subsection \<open>Sample environments\<close>

text \<open>
  A two-entry glossary, a corrector that repairs one misspelling, a model that answers
  every prompt with one sentence, and their failing counterparts. They are the
  concrete inputs on which the theorems below are instantiated.
\<close>

text \<open>
  Lowercasing of the letters A to Z, every other byte kept: what \<^verbatim>\<open>str.lower()\<close> does
  on a text of ASCII characters, which the sample inputs are.
\<close>

definition ascii_lower_char :: "char \<Rightarrow> char" where
  "ascii_lower_char c =
     (if 65 \<le> (of_char c :: nat) \<and> (of_char c :: nat) \<le> 90
      then char_of ((of_char c :: nat) + 32) else c)"

definition ascii_lower :: "string \<Rightarrow> string" where
  "ascii_lower s = map ascii_lower_char s"

definition sample_glossary :: "(string \<times> string) list" where
  "sample_glossary =
     [(''cement'', ''Cement is a binding material.''),
      (''sand'', ''Sand is a fine aggregate.'')]"

definition sample_correct :: "string \<Rightarrow> error + string" where
  "sample_correct text =
     (if text = ''what is cemant'' then Inr ''what is cement''
      else if text = ''helo'' then Inr ''hello''
      else Inr text)"

definition sample_nlp :: "string \<Rightarrow> error + string" where
  "sample_nlp prompt = Inr ''Use M20 grade concrete.''"

definition failing_nlp :: "string \<Rightarrow> error + string" where
  "failing_nlp prompt = Inl (Error ''model backend unavailable'')"

definition failing_correct :: "string \<Rightarrow> error + string" where
  "failing_correct text = Inl (Error ''corrector failed'')"

definition sample_env :: env where
  "sample_env =
     \<lparr>str_lower = ascii_lower, knowledge_base = sample_glossary, nlp = sample_nlp, textblob_correct = sample_correct\<rparr>"

text \<open>A glossary whose only answer is the empty string.\<close>

definition blank_env :: env where
  "blank_env =
     \<lparr>str_lower = ascii_lower, knowledge_base = [(''cement'', [])], nlp = sample_nlp,
      textblob_correct = sample_correct\<rparr>"

definition blank_failing_env :: env where
  "blank_failing_env =
     \<lparr>str_lower = ascii_lower, knowledge_base = [(''cement'', [])], nlp = failing_nlp,
      textblob_correct = sample_correct\<rparr>"

definition no_corrector_env :: env where
  "no_corrector_env =
     \<lparr>str_lower = ascii_lower, knowledge_base = sample_glossary, nlp = sample_nlp,
      textblob_correct = failing_correct\<rparr>"

text \<open>A glossary with a key that is not in lower case.\<close>

definition capital_env :: env where
  "capital_env =
     \<lparr>str_lower = ascii_lower,
      knowledge_base = [(''Cement'', ''Cement is a binding material.'')],
      nlp = sample_nlp, textblob_correct = sample_correct\<rparr>"

definition sample_history :: "(string \<times> string) list" where
  "sample_history =
     [(speaker_you, ''q1''), (speaker_bot, ''a1''), (speaker_you, ''q2''), (speaker_bot, ''a2'')]"

section \<open>Properties\<close>

subsection \<open>Knowledge Lookup and Relevance Filter\<close>

lemma knowledge_loop_find:
  "knowledge_loop low items u = map_option snd (find (\<lambda>kv. sublist (fst kv) (low u)) items)"
  by (induction items) auto

lemma knowledge_loop_None:
  "knowledge_loop low items u = None \<longleftrightarrow> (\<forall>kv \<in> set items. \<not> sublist (fst kv) (low u))"
  by (induction items) (auto split: if_splits)

lemma knowledge_loop_Some:
  "knowledge_loop low items u = Some a \<longleftrightarrow>
     (\<exists>i < length items. sublist (fst (items ! i)) (low u)
        \<and> (\<forall>j < i. \<not> sublist (fst (items ! j)) (low u))
        \<and> a = snd (items ! i))"
proof -
  let ?P = "\<lambda>kv. sublist (fst kv) (low u)"
  have "knowledge_loop low items u = Some a \<longleftrightarrow> (\<exists>kv. find ?P items = Some kv \<and> a = snd kv)"
    unfolding knowledge_loop_find by auto
  also have "\<dots> \<longleftrightarrow> (\<exists>i < length items. ?P (items ! i) \<and> (\<forall>j < i. \<not> ?P (items ! j))
        \<and> a = snd (items ! i))"
    unfolding find_Some_iff by blast
  finally show ?thesis .
qed

lemma related_iff_key:
  "is_construction_related e text \<longleftrightarrow>
     (\<exists>kv \<in> set (knowledge_base e). sublist (fst kv) (str_lower e text))"
  by (auto simp: is_construction_related_def list_ex_iff)

lemma related_iff_lookup:
  "is_construction_related e text \<longleftrightarrow> get_knowledge_answer e text \<noteq> None"
  by (simp add: related_iff_key get_knowledge_answer_def knowledge_loop_None)

text \<open>
  C3. \<^verbatim>\<open>get_knowledge_answer\<close> walks the glossary in its enumeration order and returns
  the answer of the first entry whose key is a substring of the lowercased input; it
  returns \<^verbatim>\<open>None\<close> exactly when no key is a substring.
\<close>

theorem get_knowledge_answer_first_match:
  "(get_knowledge_answer e u = None \<longleftrightarrow>
      (\<forall>i < length (knowledge_base e). \<not> sublist (fst (knowledge_base e ! i)) (str_lower e u)))
   \<and> (\<forall>a. get_knowledge_answer e u = Some a \<longleftrightarrow>
      (\<exists>i < length (knowledge_base e).
          sublist (fst (knowledge_base e ! i)) (str_lower e u)
        \<and> (\<forall>j < i. \<not> sublist (fst (knowledge_base e ! j)) (str_lower e u))
        \<and> a = snd (knowledge_base e ! i)))"
proof (intro conjI allI)
  show "get_knowledge_answer e u = None \<longleftrightarrow>
      (\<forall>i < length (knowledge_base e). \<not> sublist (fst (knowledge_base e ! i)) (str_lower e u))"
    unfolding get_knowledge_answer_def knowledge_loop_None
    by (metis in_set_conv_nth)
next
  fix a
  show "get_knowledge_answer e u = Some a \<longleftrightarrow>
      (\<exists>i < length (knowledge_base e).
          sublist (fst (knowledge_base e ! i)) (str_lower e u)
        \<and> (\<forall>j < i. \<not> sublist (fst (knowledge_base e ! j)) (str_lower e u))
        \<and> a = snd (knowledge_base e ! i))"
    unfolding get_knowledge_answer_def by (rule knowledge_loop_Some)
qed

theorem get_knowledge_answer_first_match_witness:
  "get_knowledge_answer sample_env ''Sand and CEMENT'' = Some ''Cement is a binding material.''
   \<and> get_knowledge_answer sample_env ''bricks'' = None"
proof -
  have k: "knowledge_base sample_env = sample_glossary"
    by (simp add: sample_env_def)
  have m: "sublist (fst (sample_glossary ! 0)) (str_lower sample_env ''Sand and CEMENT'')"
    by code_simp
  have "get_knowledge_answer sample_env ''Sand and CEMENT'' = Some (snd (sample_glossary ! 0))"
    using get_knowledge_answer_first_match [of sample_env "''Sand and CEMENT''"] m
    unfolding k by (auto simp: sample_glossary_def)
  moreover have n: "\<not> sublist ''cement'' (str_lower sample_env ''bricks'')" "\<not> sublist ''sand'' (str_lower sample_env ''bricks'')"
    by code_simp+
  have "\<forall>i < length sample_glossary. \<not> sublist (fst (sample_glossary ! i)) (str_lower sample_env ''bricks'')"
    unfolding sample_glossary_def using n by (simp add: less_Suc_eq all_conj_distrib)
  then have "get_knowledge_answer sample_env ''bricks'' = None"
    using get_knowledge_answer_first_match [of sample_env "''bricks''"] unfolding k by blast
  ultimately show ?thesis by (simp add: sample_glossary_def)
qed

text \<open>
  C4, as the code has it. \<^verbatim>\<open>is_construction_related\<close> lowercases the text and not
  the keys: it is true exactly when the lowercased text contains, as a substring, a
  glossary key as it is stored. On a glossary whose keys are all left unchanged by
  lowercasing, that is the same as containing the lowercased form of a key.
\<close>

theorem is_construction_related_stored_key:
  "(is_construction_related e text \<longleftrightarrow>
      (\<exists>key value pre post.
          (key, value) \<in> set (knowledge_base e) \<and> str_lower e text = pre @ key @ post))
   \<and> ((\<forall>key \<in> set (map fst (knowledge_base e)). str_lower e key = key) \<longrightarrow>
        (is_construction_related e text \<longleftrightarrow>
           (\<exists>key value pre post.
               (key, value) \<in> set (knowledge_base e)
             \<and> str_lower e text = pre @ str_lower e key @ post)))"
proof -
  let ?kb = "knowledge_base e" and ?L = "str_lower e text"
  have stored: "is_construction_related e text \<longleftrightarrow>
      (\<exists>key value pre post. (key, value) \<in> set ?kb \<and> ?L = pre @ key @ post)"
  proof
    assume "is_construction_related e text"
    then obtain kv where kv: "kv \<in> set ?kb" and "sublist (fst kv) ?L"
      unfolding related_iff_key by blast
    then obtain pre post where "?L = pre @ fst kv @ post"
      unfolding sublist_def by blast
    moreover from kv have "(fst kv, snd kv) \<in> set ?kb"
      by simp
    ultimately show "\<exists>key value pre post. (key, value) \<in> set ?kb \<and> ?L = pre @ key @ post"
      by blast
  next
    assume "\<exists>key value pre post. (key, value) \<in> set ?kb \<and> ?L = pre @ key @ post"
    then obtain key "value" pre post
      where m: "(key, value) \<in> set ?kb" and l: "?L = pre @ key @ post"
      by blast
    from l have "sublist (fst (key, value)) ?L"
      unfolding sublist_def by auto
    with m show "is_construction_related e text"
      unfolding related_iff_key by blast
  qed
  have "is_construction_related e text \<longleftrightarrow>
      (\<exists>key value pre post. (key, value) \<in> set ?kb \<and> ?L = pre @ str_lower e key @ post)"
    if inv: "\<forall>key \<in> set (map fst ?kb). str_lower e key = key"
  proof -
    have fixed: "str_lower e key = key" if "(key, value) \<in> set ?kb" for key "value"
    proof -
      have "key \<in> set (map fst ?kb)"
        using imageI [OF that, of fst] by simp
      with inv show ?thesis by blast
    qed
    show ?thesis
    proof
      assume "is_construction_related e text"
      then obtain key "value" pre post
        where m: "(key, value) \<in> set ?kb" and l: "?L = pre @ key @ post"
        unfolding stored by blast
      from l fixed [OF m] have "?L = pre @ str_lower e key @ post"
        by simp
      with m show "\<exists>key value pre post.
          (key, value) \<in> set ?kb \<and> ?L = pre @ str_lower e key @ post"
        by blast
    next
      assume "\<exists>key value pre post.
          (key, value) \<in> set ?kb \<and> ?L = pre @ str_lower e key @ post"
      then obtain key "value" pre post
        where m: "(key, value) \<in> set ?kb" and l: "?L = pre @ str_lower e key @ post"
        by blast
      from l fixed [OF m] have "?L = pre @ key @ post"
        by simp
      with m show "is_construction_related e text"
        unfolding stored by blast
    qed
  qed
  with stored show ?thesis by blast
qed

theorem is_construction_related_stored_key_witness:
  "is_construction_related sample_env ''What is CEMENT?''
   \<and> \<not> is_construction_related sample_env ''weather today''"
proof -
  have l: "str_lower sample_env ''What is CEMENT?'' = ''what is '' @ ''cement'' @ ''?''"
    by code_simp
  have m: "(''cement'', ''Cement is a binding material.'') \<in> set (knowledge_base sample_env)"
    by (simp add: sample_env_def sample_glossary_def)
  from is_construction_related_stored_key [of sample_env "''What is CEMENT?''"] l m
  have "is_construction_related sample_env ''What is CEMENT?''" by blast
  moreover have "\<not> is_construction_related sample_env ''weather today''"
    by code_simp
  ultimately show ?thesis by simp
qed

text \<open>
  Where the claim as written fails: the key \<^verbatim>\<open>Cement\<close> is stored with a capital, its
  lowercased form is contained in the lowercased text, and the filter is false.
\<close>

theorem is_construction_related_stored_key_counterexample:
  "(''Cement'', ''Cement is a binding material.'') \<in> set (knowledge_base capital_env)
   \<and> str_lower capital_env ''Cement'' = ''cement''
   \<and> str_lower capital_env ''What is Cement?'' = ''what is cement?''
   \<and> sublist (str_lower capital_env ''Cement'') (str_lower capital_env ''What is Cement?'')
   \<and> \<not> is_construction_related capital_env ''What is Cement?''"
proof (intro conjI)
  show "(''Cement'', ''Cement is a binding material.'') \<in> set (knowledge_base capital_env)"
    by (simp add: capital_env_def)
  show "str_lower capital_env ''Cement'' = ''cement''"
    by code_simp
  show "str_lower capital_env ''What is Cement?'' = ''what is cement?''"
    by code_simp
  show "sublist (str_lower capital_env ''Cement'') (str_lower capital_env ''What is Cement?'')"
    by code_simp
  show "\<not> is_construction_related capital_env ''What is Cement?''"
    by code_simp
qed

subsection \<open>The branches of the submit handler\<close>

lemma generate_response_known:
  "truthy (get_knowledge_answer e c) \<Longrightarrow>
     generate_response e c h = (Inr (the (get_knowledge_answer e c)), [Knowledge_Lookup c])"
  by (simp add: generate_response_def)

lemma generate_response_model:
  "\<not> truthy (get_knowledge_answer e c) \<Longrightarrow>
     generate_response e c h =
       (nlp e (build_prompt c h), [Knowledge_Lookup c, Model_Call (build_prompt c h)])"
  by (simp add: generate_response_def Let_def)

lemma on_submit_skipped:
  "\<not> (submitted \<and> u \<noteq> []) \<Longrightarrow>
     on_submit e submitted u h = \<lparr>history = h, infos = [], calls = [], outcome = Skipped\<rparr>"
  by (auto simp: on_submit_def)

lemma on_submit_corrector_raises:
  "submitted \<Longrightarrow> u \<noteq> [] \<Longrightarrow> correct_spelling e u = Inl x \<Longrightarrow>
     on_submit e submitted u h = \<lparr>history = h, infos = [], calls = [], outcome = Raised x\<rparr>"
  by (simp add: on_submit_def)

lemma on_submit_refused:
  "submitted \<Longrightarrow> u \<noteq> [] \<Longrightarrow> correct_spelling e u = Inr c \<Longrightarrow>
   \<not> is_construction_related e c \<Longrightarrow>
     on_submit e submitted u h =
       \<lparr>history = h @ [(speaker_you, u), (speaker_bot, refusal)], infos = [], calls = [],
        outcome = Answered refusal\<rparr>"
  by (simp add: on_submit_def)

lemma on_submit_raised:
  "submitted \<Longrightarrow> u \<noteq> [] \<Longrightarrow> correct_spelling e u = Inr c \<Longrightarrow>
   is_construction_related e c \<Longrightarrow> generate_response e c h = (Inl x, cs) \<Longrightarrow>
     on_submit e submitted u h =
       \<lparr>history = h, infos = (if str_lower e c \<noteq> str_lower e u then [did_you_mean c] else []),
        calls = cs, outcome = Raised x\<rparr>"
  by (simp add: on_submit_def)

lemma on_submit_answered:
  "submitted \<Longrightarrow> u \<noteq> [] \<Longrightarrow> correct_spelling e u = Inr c \<Longrightarrow>
   is_construction_related e c \<Longrightarrow> generate_response e c h = (Inr a, cs) \<Longrightarrow>
     on_submit e submitted u h =
       \<lparr>history = h @ [(speaker_you, u), (speaker_bot, a)],
        infos = (if str_lower e c \<noteq> str_lower e u then [did_you_mean c] else []),
        calls = cs, outcome = Answered a\<rparr>"
  by (simp add: on_submit_def)

lemma knowledge_loop_value:
  "knowledge_loop low items u = Some a \<Longrightarrow> a \<in> set (map snd items)"
  by (induction items) (auto split: if_splits)

lemma related_truthy:
  assumes "\<forall>v \<in> set (map snd (knowledge_base e)). v \<noteq> []"
  shows "is_construction_related e text \<longleftrightarrow> truthy (get_knowledge_answer e text)"
proof (cases "get_knowledge_answer e text")
  case None
  then show ?thesis by (simp add: related_iff_lookup)
next
  case (Some a)
  then have "a \<in> set (map snd (knowledge_base e))"
    unfolding get_knowledge_answer_def by (rule knowledge_loop_value)
  with assms have "a \<noteq> []" by blast
  with Some show ?thesis by (simp add: related_iff_lookup)
qed

lemma calls_cases:
  "calls (on_submit e submitted u h) = [] \<or>
   (\<exists>c. correct_spelling e u = Inr c \<and> is_construction_related e c \<and>
        calls (on_submit e submitted u h) = snd (generate_response e c h))"
  by (auto simp: on_submit_def split: sum.splits prod.splits)

text \<open>
  C9. On a glossary whose answers are all non-empty, the Relevance Filter is true
  exactly when the Knowledge Lookup on the same text returns a match (and the match is
  a non-empty answer, which is what \<^verbatim>\<open>generate_response\<close> tests). So no run of the
  submit handler calls the model, and every relevant input is answered with the
  glossary's entry.
\<close>

theorem relevance_iff_match_model_unreachable:
  assumes "\<forall>v \<in> set (map snd (knowledge_base e)). v \<noteq> []"
  shows "(is_construction_related e text \<longleftrightarrow> get_knowledge_answer e text \<noteq> None)
     \<and> (is_construction_related e text \<longleftrightarrow> truthy (get_knowledge_answer e text))
     \<and> (\<forall>prompt. Model_Call prompt \<notin> set (calls (on_submit e submitted user_input h)))
     \<and> (\<forall>c. submitted \<and> user_input \<noteq> [] \<and> correct_spelling e user_input = Inr c
              \<and> is_construction_related e c \<longrightarrow>
            (\<exists>a. get_knowledge_answer e c = Some a
               \<and> outcome (on_submit e submitted user_input h) = Answered a))"
proof (intro conjI allI impI)
  show "is_construction_related e text \<longleftrightarrow> get_knowledge_answer e text \<noteq> None"
    by (rule related_iff_lookup)
  show "is_construction_related e text \<longleftrightarrow> truthy (get_knowledge_answer e text)"
    using assms by (rule related_truthy)
next
  fix prompt
  show "Model_Call prompt \<notin> set (calls (on_submit e submitted user_input h))"
  proof -
    consider "calls (on_submit e submitted user_input h) = []"
      | c where "is_construction_related e c"
          "calls (on_submit e submitted user_input h) = snd (generate_response e c h)"
      using calls_cases [of e submitted user_input h] by blast
    then show ?thesis
    proof cases
      case 1
      then show ?thesis by simp
    next
      case 2
      from 2(1) have "truthy (get_knowledge_answer e c)"
        using related_truthy [OF assms] by simp
      then show ?thesis using 2(2) by (simp add: generate_response_known)
    qed
  qed
next
  fix c
  assume a: "submitted \<and> user_input \<noteq> [] \<and> correct_spelling e user_input = Inr c
              \<and> is_construction_related e c"
  then have t: "truthy (get_knowledge_answer e c)"
    using related_truthy [OF assms] by simp
  then obtain a' where s: "get_knowledge_answer e c = Some a'"
    by (cases "get_knowledge_answer e c") auto
  have "generate_response e c h = (Inr a', [Knowledge_Lookup c])"
    using generate_response_known [OF t] s by simp
  with a have "outcome (on_submit e submitted user_input h) = Answered a'"
    by (simp add: on_submit_answered)
  with s show "\<exists>a. get_knowledge_answer e c = Some a
               \<and> outcome (on_submit e submitted user_input h) = Answered a"
    by blast
qed

theorem relevance_iff_match_model_unreachable_witness:
  "list_all (\<lambda>v. v \<noteq> []) (map snd (knowledge_base sample_env))
   \<and> is_construction_related sample_env ''what is cement''
   \<and> get_knowledge_answer sample_env ''what is cement'' = Some ''Cement is a binding material.''
   \<and> outcome (on_submit sample_env True ''what is cemant'' sample_history)
       = Answered ''Cement is a binding material.''
   \<and> Model_Call (build_prompt ''what is cement'' sample_history)
       \<notin> set (calls (on_submit sample_env True ''what is cemant'' sample_history))"
proof -
  have v: "\<forall>v \<in> set (map snd (knowledge_base sample_env)). v \<noteq> []"
    by (simp add: sample_env_def sample_glossary_def)
  have c: "correct_spelling sample_env ''what is cemant'' = Inr ''what is cement''"
    by (simp add: correct_spelling_def sample_env_def sample_correct_def)
  have r: "is_construction_related sample_env ''what is cement''"
    by code_simp
  have g: "get_knowledge_answer sample_env ''what is cement'' = Some ''Cement is a binding material.''"
    by code_simp
  note t = relevance_iff_match_model_unreachable
    [OF v, of "''what is cement''" True "''what is cemant''" sample_history]
  from t c r g
  have "outcome (on_submit sample_env True ''what is cemant'' sample_history)
       = Answered ''Cement is a binding material.''"
    by auto
  moreover from t
  have "Model_Call (build_prompt ''what is cement'' sample_history)
       \<notin> set (calls (on_submit sample_env True ''what is cemant'' sample_history))"
    by blast
  ultimately show ?thesis using v r g by (simp add: list_all_iff)
qed

subsection \<open>Glossary answers and the refusal\<close>

text \<open>
  C1, as the code has it. When the corrected text, lowercased, contains a glossary key,
  the reply is the answer of the first entry, in the glossary's enumeration order, whose
  key is contained, provided that answer is not the empty string; only the Knowledge
  Lookup is called, the model is not.
\<close>

theorem submit_first_match_answer:
  assumes "submitted" and "user_input \<noteq> []"
    and "correct_spelling e user_input = Inr corrected"
    and "i < length (knowledge_base e)"
    and "sublist (fst (knowledge_base e ! i)) (str_lower e corrected)"
    and "\<forall>j < i. \<not> sublist (fst (knowledge_base e ! j)) (str_lower e corrected)"
    and "snd (knowledge_base e ! i) \<noteq> []"
  shows "outcome (on_submit e submitted user_input h) = Answered (snd (knowledge_base e ! i))
     \<and> calls (on_submit e submitted user_input h) = [Knowledge_Lookup corrected]"
proof -
  have s: "get_knowledge_answer e corrected = Some (snd (knowledge_base e ! i))"
    unfolding get_knowledge_answer_def knowledge_loop_Some using assms(4-6) by blast
  then have r: "is_construction_related e corrected"
    by (simp add: related_iff_lookup)
  have "truthy (get_knowledge_answer e corrected)"
    using s assms(7) by simp
  then have "generate_response e corrected h =
      (Inr (snd (knowledge_base e ! i)), [Knowledge_Lookup corrected])"
    using s by (simp add: generate_response_known)
  then show ?thesis
    using assms(1-3) r by (simp add: on_submit_answered)
qed

theorem submit_first_match_answer_witness:
  "outcome (on_submit sample_env True ''what is cemant'' sample_history)
     = Answered ''Cement is a binding material.''
   \<and> calls (on_submit sample_env True ''what is cemant'' sample_history)
     = [Knowledge_Lookup ''what is cement'']"
proof -
  have k: "knowledge_base sample_env = sample_glossary"
    by (simp add: sample_env_def)
  have c: "correct_spelling sample_env ''what is cemant'' = Inr ''what is cement''"
    by (simp add: correct_spelling_def sample_env_def sample_correct_def)
  have l: "(0::nat) < length (knowledge_base sample_env)"
    by (simp add: k sample_glossary_def)
  have m: "sublist (fst (knowledge_base sample_env ! 0)) (str_lower sample_env ''what is cement'')"
    unfolding k by code_simp
  have f: "\<forall>j < (0::nat). \<not> sublist (fst (knowledge_base sample_env ! j)) (str_lower sample_env ''what is cement'')"
    by simp
  have n: "snd (knowledge_base sample_env ! 0) \<noteq> []"
    by (simp add: k sample_glossary_def)
  have "True" and "''what is cemant'' \<noteq> []"
    by simp_all
  from submit_first_match_answer [OF this c l m f n, of sample_history]
  show ?thesis by (simp add: k sample_glossary_def)
qed

text \<open>
  Where the claim as written fails: on a glossary whose matching answer is the empty
  string the model is called and its text is the reply; and when two keys are contained,
  the reply is the first entry's answer, not the second's.
\<close>

theorem submit_first_match_answer_counterexample:
  "(''cement'', []) \<in> set (knowledge_base blank_env)
   \<and> correct_spelling blank_env ''cement'' = Inr ''cement''
   \<and> sublist ''cement'' (str_lower blank_env ''cement'')
   \<and> outcome (on_submit blank_env True ''cement'' []) = Answered ''Use M20 grade concrete.''
   \<and> calls (on_submit blank_env True ''cement'' [])
       = [Knowledge_Lookup ''cement'', Model_Call (build_prompt ''cement'' [])]
   \<and> (''sand'', ''Sand is a fine aggregate.'') \<in> set (knowledge_base sample_env)
   \<and> correct_spelling sample_env ''sand or cement'' = Inr ''sand or cement''
   \<and> sublist ''sand'' (str_lower sample_env ''sand or cement'')
   \<and> outcome (on_submit sample_env True ''sand or cement'' [])
       = Answered ''Cement is a binding material.''"
proof (intro conjI)
  show "(''cement'', []) \<in> set (knowledge_base blank_env)"
    by (simp add: blank_env_def)
  show "correct_spelling blank_env ''cement'' = Inr ''cement''"
    by (simp add: correct_spelling_def blank_env_def sample_correct_def)
  show "sublist ''cement'' (str_lower blank_env ''cement'')"
    by code_simp
  show "outcome (on_submit blank_env True ''cement'' []) = Answered ''Use M20 grade concrete.''"
    by code_simp
  show "calls (on_submit blank_env True ''cement'' [])
       = [Knowledge_Lookup ''cement'', Model_Call (build_prompt ''cement'' [])]"
    by code_simp
  show "(''sand'', ''Sand is a fine aggregate.'') \<in> set (knowledge_base sample_env)"
    by (simp add: sample_env_def sample_glossary_def)
  show "correct_spelling sample_env ''sand or cement'' = Inr ''sand or cement''"
    by (simp add: correct_spelling_def sample_env_def sample_correct_def)
  show "sublist ''sand'' (str_lower sample_env ''sand or cement'')"
    by code_simp
  show "outcome (on_submit sample_env True ''sand or cement'' [])
       = Answered ''Cement is a binding material.''"
    by code_simp
qed

text \<open>
  C2, as the code has it. When the corrected text fails the Relevance Filter, the reply
  is the source's literal: the warning sign U+26A0 with the variation selector U+FE0F
  (six bytes in UTF-8), a blank, and the sentence. Neither the Knowledge Lookup nor the
  model is called.
\<close>

theorem submit_refusal:
  assumes "submitted" and "user_input \<noteq> []"
    and "correct_spelling e user_input = Inr corrected"
    and "\<not> is_construction_related e corrected"
  shows "outcome (on_submit e submitted user_input h) =
       Answered ([CHR 0xE2, CHR 0x9A, CHR 0xA0, CHR 0xEF, CHR 0xB8, CHR 0x8F] @
                 '' Sorry, I only answer construction-related questions.'')
     \<and> calls (on_submit e submitted user_input h) = []"
  using assms by (simp add: on_submit_refused refusal_def)

theorem submit_refusal_witness:
  "\<not> is_construction_related sample_env ''weather today''
   \<and> outcome (on_submit sample_env True ''weather today'' sample_history) =
       Answered ([CHR 0xE2, CHR 0x9A, CHR 0xA0, CHR 0xEF, CHR 0xB8, CHR 0x8F] @
                 '' Sorry, I only answer construction-related questions.'')
   \<and> calls (on_submit sample_env True ''weather today'' sample_history) = []"
proof -
  have c: "correct_spelling sample_env ''weather today'' = Inr ''weather today''"
    by (simp add: correct_spelling_def sample_env_def sample_correct_def)
  have r: "\<not> is_construction_related sample_env ''weather today''"
    by code_simp
  have "True" and "''weather today'' \<noteq> []"
    by simp_all
  from submit_refusal [OF this c r, of sample_history] r
  show ?thesis by blast
qed

theorem submit_refusal_counterexample:
  "correct_spelling sample_env ''weather today'' = Inr ''weather today''
   \<and> \<not> is_construction_related sample_env ''weather today''
   \<and> outcome (on_submit sample_env True ''weather today'' [])
       \<noteq> Answered ''Sorry, I only answer construction-related questions.''"
proof (intro conjI)
  show "correct_spelling sample_env ''weather today'' = Inr ''weather today''"
    by (simp add: correct_spelling_def sample_env_def sample_correct_def)
  show "\<not> is_construction_related sample_env ''weather today''"
    by code_simp
  show "outcome (on_submit sample_env True ''weather today'' [])
       \<noteq> Answered ''Sorry, I only answer construction-related questions.''"
    by code_simp
qed

subsection \<open>Exceptions of the collaborators\<close>

text \<open>
  C5, as the code has it. \<^verbatim>\<open>generate_response\<close> has no handler around the call of
  the model: when the model raises on the prompt, the exception leaves
  \<^verbatim>\<open>generate_response\<close> and the submit handler as it is. There is no apology
  string, no reply, and the history is left as it was.
\<close>

theorem model_exception_escapes:
  assumes "\<not> truthy (get_knowledge_answer e corrected)"
    and "nlp e (build_prompt corrected h) = Inl x"
  shows "fst (generate_response e corrected h) = Inl x
     \<and> (submitted \<and> user_input \<noteq> [] \<and> correct_spelling e user_input = Inr corrected
          \<and> is_construction_related e corrected \<longrightarrow>
        outcome (on_submit e submitted user_input h) = Raised x
          \<and> history (on_submit e submitted user_input h) = h)"
proof -
  have g: "generate_response e corrected h =
      (Inl x, [Knowledge_Lookup corrected, Model_Call (build_prompt corrected h)])"
    using assms by (simp add: generate_response_model)
  then show ?thesis
    by (auto simp: on_submit_raised)
qed

theorem model_exception_escapes_witness:
  "fst (generate_response blank_failing_env ''cement'' sample_history)
     = Inl (Error ''model backend unavailable'')
   \<and> outcome (on_submit blank_failing_env True ''cement'' sample_history)
     = Raised (Error ''model backend unavailable'')
   \<and> history (on_submit blank_failing_env True ''cement'' sample_history) = sample_history"
proof -
  have t: "\<not> truthy (get_knowledge_answer blank_failing_env ''cement'')"
    by code_simp
  have n: "nlp blank_failing_env (build_prompt ''cement'' sample_history)
      = Inl (Error ''model backend unavailable'')"
    by (simp add: blank_failing_env_def failing_nlp_def)
  have c: "correct_spelling blank_failing_env ''cement'' = Inr ''cement''"
    by (simp add: correct_spelling_def blank_failing_env_def sample_correct_def)
  have r: "is_construction_related blank_failing_env ''cement''"
    by code_simp
  from model_exception_escapes [OF t n, of True "''cement''"] c r
  show ?thesis by simp
qed

theorem model_exception_escapes_counterexample:
  "nlp blank_failing_env (build_prompt ''cement'' []) = Inl (Error ''model backend unavailable'')
   \<and> generate_response blank_failing_env ''cement'' [] =
       (Inl (Error ''model backend unavailable''),
        [Knowledge_Lookup ''cement'', Model_Call (build_prompt ''cement'' [])])
   \<and> outcome (on_submit blank_failing_env True ''cement'' [])
       = Raised (Error ''model backend unavailable'')"
proof (intro conjI)
  show "nlp blank_failing_env (build_prompt ''cement'' []) = Inl (Error ''model backend unavailable'')"
    by (simp add: blank_failing_env_def failing_nlp_def)
  show "generate_response blank_failing_env ''cement'' [] =
       (Inl (Error ''model backend unavailable''),
        [Knowledge_Lookup ''cement'', Model_Call (build_prompt ''cement'' [])])"
    by code_simp
  show "outcome (on_submit blank_failing_env True ''cement'' [])
       = Raised (Error ''model backend unavailable'')"
    by code_simp
qed

text \<open>
  C6, as the code has it. \<^verbatim>\<open>correct_spelling\<close> returns what the corrector returns
  and has no fallback: when the corrector raises, the exception leaves
  \<^verbatim>\<open>correct_spelling\<close> and the submit handler, before anything is shown, called or
  stored.
\<close>

theorem corrector_exception_escapes:
  "correct_spelling e text = textblob_correct e text
   \<and> (textblob_correct e text = Inl x \<longrightarrow>
        correct_spelling e text = Inl x
        \<and> (submitted \<and> text \<noteq> [] \<longrightarrow>
             on_submit e submitted text h =
               \<lparr>history = h, infos = [], calls = [], outcome = Raised x\<rparr>))"
  by (simp add: correct_spelling_def on_submit_def)

theorem corrector_exception_escapes_witness:
  "textblob_correct no_corrector_env ''what is cemant'' = Inl (Error ''corrector failed'')
   \<and> correct_spelling no_corrector_env ''what is cemant'' = Inl (Error ''corrector failed'')
   \<and> on_submit no_corrector_env True ''what is cemant'' sample_history =
       \<lparr>history = sample_history, infos = [], calls = [],
        outcome = Raised (Error ''corrector failed'')\<rparr>"
proof -
  have f: "textblob_correct no_corrector_env ''what is cemant'' = Inl (Error ''corrector failed'')"
    by (simp add: no_corrector_env_def failing_correct_def)
  from corrector_exception_escapes
    [of no_corrector_env "''what is cemant''" "Error ''corrector failed''" True sample_history] f
  show ?thesis by simp
qed

theorem corrector_exception_escapes_counterexample:
  "textblob_correct no_corrector_env ''what is cemant'' = Inl (Error ''corrector failed'')
   \<and> correct_spelling no_corrector_env ''what is cemant'' \<noteq> Inr ''what is cemant''
   \<and> outcome (on_submit no_corrector_env True ''what is cemant'' [])
       = Raised (Error ''corrector failed'')"
  by (simp add: correct_spelling_def on_submit_def no_corrector_env_def failing_correct_def)

subsection \<open>The generated reply\<close>

lemma last3_length: "length (last3 h) = min 3 (length h)"
  by (auto simp: last3_def)

text \<open>
  C7, as the code has it. Whenever \<^verbatim>\<open>generate_response\<close> finds no answer it accepts
  (the lookup gives \<^verbatim>\<open>None\<close> or an empty string), the prompt is the source's literal:
  a line break, the three instruction lines, an empty line and \<^verbatim>\<open>Chat history:\<close>, each
  line behind four blanks; then, behind four blanks, the last three turns of the history
  (all of them when there are fewer), each as \<^verbatim>\<open>speaker: text\<close> and joined by line
  breaks; then an empty line, the \<^verbatim>\<open>User:\<close> line with the input behind four blanks, and
  a closing line break with four blanks. The model is called once, with this prompt, and
  the text it returns is the reply. An input that passes the Relevance Filter has a
  lookup result, so the submit handler reaches this branch only on an empty answer.
\<close>

theorem generate_response_prompt:
  assumes "\<not> truthy (get_knowledge_answer e user_input)"
    and "nlp e (build_prompt user_input h) = Inr generated"
  shows "build_prompt user_input h =
       [CHR 0x0A] @ ''    You are a civil engineer expert.''
       @ [CHR 0x0A] @ ''    Answer clearly and only about construction materials, IS codes, and civil engineering.''
       @ [CHR 0x0A] @ ''    If irrelevant, reply: '' @ [CHR 0x22]
       @ ''Sorry, I only answer construction-related questions.'' @ [CHR 0x22]
       @ [CHR 0x0A]
       @ [CHR 0x0A] @ ''    Chat history:''
       @ [CHR 0x0A] @ ''    ''
       @ join [CHR 0x0A]
           (map (\<lambda>(speaker, text). speaker @ '': '' @ text) (drop (length h - 3) h))
       @ [CHR 0x0A, CHR 0x0A] @ ''    User: '' @ user_input @ [CHR 0x0A] @ ''    ''
     \<and> length (drop (length h - 3) h) = min 3 (length h)
     \<and> suffix (drop (length h - 3) h) h
     \<and> generate_response e user_input h =
         (Inr generated, [Knowledge_Lookup user_input, Model_Call (build_prompt user_input h)])
     \<and> (is_construction_related e user_input \<longrightarrow> get_knowledge_answer e user_input = Some [])
     \<and> (submitted \<and> raw \<noteq> [] \<and> correct_spelling e raw = Inr user_input
          \<and> is_construction_related e user_input \<longrightarrow>
        calls (on_submit e submitted raw h) =
          [Knowledge_Lookup user_input, Model_Call (build_prompt user_input h)]
        \<and> outcome (on_submit e submitted raw h) = Answered generated)"
proof (intro conjI impI)
  have "format_turn = (\<lambda>(speaker, text). speaker @ '': '' @ text)"
    by (auto simp: format_turn_def fun_eq_iff)
  then show "build_prompt user_input h =
       [CHR 0x0A] @ ''    You are a civil engineer expert.''
       @ [CHR 0x0A] @ ''    Answer clearly and only about construction materials, IS codes, and civil engineering.''
       @ [CHR 0x0A] @ ''    If irrelevant, reply: '' @ [CHR 0x22]
       @ ''Sorry, I only answer construction-related questions.'' @ [CHR 0x22]
       @ [CHR 0x0A]
       @ [CHR 0x0A] @ ''    Chat history:''
       @ [CHR 0x0A] @ ''    ''
       @ join [CHR 0x0A]
           (map (\<lambda>(speaker, text). speaker @ '': '' @ text) (drop (length h - 3) h))
       @ [CHR 0x0A, CHR 0x0A] @ ''    User: '' @ user_input @ [CHR 0x0A] @ ''    ''"
    by (simp add: build_prompt_def prompt_header_def context_of_def last3_def prompt_user_def
        prompt_end_def newline_def)
  show "length (drop (length h - 3) h) = min 3 (length h)"
    using last3_length [of h] by (simp add: last3_def)
  show "suffix (drop (length h - 3) h) h"
    by (rule suffix_drop)
  show g: "generate_response e user_input h =
         (Inr generated, [Knowledge_Lookup user_input, Model_Call (build_prompt user_input h)])"
    using assms by (simp add: generate_response_model)
  show "get_knowledge_answer e user_input = Some []"
    if "is_construction_related e user_input"
  proof (cases "get_knowledge_answer e user_input")
    case None
    with that show ?thesis by (simp add: related_iff_lookup)
  next
    case (Some a)
    with assms(1) show ?thesis by simp
  qed
  assume a: "submitted \<and> raw \<noteq> [] \<and> correct_spelling e raw = Inr user_input
          \<and> is_construction_related e user_input"
  show "calls (on_submit e submitted raw h) =
          [Knowledge_Lookup user_input, Model_Call (build_prompt user_input h)]"
    using a g by (simp add: on_submit_answered)
  show "outcome (on_submit e submitted raw h) = Answered generated"
    using a g by (simp add: on_submit_answered)
qed

theorem generate_response_prompt_witness:
  "generate_response sample_env ''bricks'' sample_history =
     (Inr ''Use M20 grade concrete.'',
      [Knowledge_Lookup ''bricks'',
       Model_Call
        ([CHR 0x0A] @ ''    You are a civil engineer expert.''
         @ [CHR 0x0A] @ ''    Answer clearly and only about construction materials, IS codes, and civil engineering.''
         @ [CHR 0x0A] @ ''    If irrelevant, reply: '' @ [CHR 0x22]
         @ ''Sorry, I only answer construction-related questions.'' @ [CHR 0x22]
         @ [CHR 0x0A]
         @ [CHR 0x0A] @ ''    Chat history:''
         @ [CHR 0x0A] @ ''    '' @ [CHR 0xF0, CHR 0x9F, CHR 0xA4, CHR 0x96] @ '' Bot: a1''
         @ [CHR 0x0A] @ [CHR 0xF0, CHR 0x9F, CHR 0x91, CHR 0xA4] @ '' You: q2''
         @ [CHR 0x0A] @ [CHR 0xF0, CHR 0x9F, CHR 0xA4, CHR 0x96] @ '' Bot: a2''
         @ [CHR 0x0A, CHR 0x0A] @ ''    User: bricks'' @ [CHR 0x0A] @ ''    '')])
   \<and> get_knowledge_answer blank_env ''cement'' = Some []
   \<and> calls (on_submit blank_env True ''cement'' sample_history) =
       [Knowledge_Lookup ''cement'', Model_Call (build_prompt ''cement'' sample_history)]
   \<and> outcome (on_submit blank_env True ''cement'' sample_history)
       = Answered ''Use M20 grade concrete.''"
proof -
  have t1: "\<not> truthy (get_knowledge_answer sample_env ''bricks'')"
    by code_simp
  have n1: "nlp sample_env (build_prompt ''bricks'' sample_history) = Inr ''Use M20 grade concrete.''"
    by (simp add: sample_env_def sample_nlp_def)
  note w1 = generate_response_prompt [OF t1 n1, of False "[]"]
  from w1 have p: "build_prompt ''bricks'' sample_history =
         [CHR 0x0A] @ ''    You are a civil engineer expert.''
         @ [CHR 0x0A] @ ''    Answer clearly and only about construction materials, IS codes, and civil engineering.''
         @ [CHR 0x0A] @ ''    If irrelevant, reply: '' @ [CHR 0x22]
         @ ''Sorry, I only answer construction-related questions.'' @ [CHR 0x22]
         @ [CHR 0x0A]
         @ [CHR 0x0A] @ ''    Chat history:''
         @ [CHR 0x0A] @ ''    '' @ [CHR 0xF0, CHR 0x9F, CHR 0xA4, CHR 0x96] @ '' Bot: a1''
         @ [CHR 0x0A] @ [CHR 0xF0, CHR 0x9F, CHR 0x91, CHR 0xA4] @ '' You: q2''
         @ [CHR 0x0A] @ [CHR 0xF0, CHR 0x9F, CHR 0xA4, CHR 0x96] @ '' Bot: a2''
         @ [CHR 0x0A, CHR 0x0A] @ ''    User: bricks'' @ [CHR 0x0A] @ ''    ''"
    by (simp add: sample_history_def speaker_you_def speaker_bot_def)
  from w1 have g: "generate_response sample_env ''bricks'' sample_history =
      (Inr ''Use M20 grade concrete.'',
       [Knowledge_Lookup ''bricks'', Model_Call (build_prompt ''bricks'' sample_history)])"
    by blast
  have c: "correct_spelling blank_env ''cement'' = Inr ''cement''"
    by (simp add: correct_spelling_def blank_env_def sample_correct_def)
  have r: "is_construction_related blank_env ''cement''"
    by code_simp
  have t2: "\<not> truthy (get_knowledge_answer blank_env ''cement'')"
    by code_simp
  have n2: "nlp blank_env (build_prompt ''cement'' sample_history) = Inr ''Use M20 grade concrete.''"
    by (simp add: blank_env_def sample_nlp_def)
  note w2 = generate_response_prompt [OF t2 n2, of True "''cement''"]
  from w2 c r have "get_knowledge_answer blank_env ''cement'' = Some []
    \<and> calls (on_submit blank_env True ''cement'' sample_history) =
       [Knowledge_Lookup ''cement'', Model_Call (build_prompt ''cement'' sample_history)]
    \<and> outcome (on_submit blank_env True ''cement'' sample_history)
       = Answered ''Use M20 grade concrete.''"
    by simp
  with g show ?thesis unfolding p by simp
qed

text \<open>
  Where the claim as written fails: the prompt that reaches the model is not the
  template as the specification prints it. It opens with a line break and four blanks,
  both on the handler's path to the model (a matching key with an empty answer) and
  when \<^verbatim>\<open>generate_response\<close> is given a text with no matching key.
\<close>

theorem generate_response_prompt_counterexample:
  "is_construction_related blank_env ''cement''
   \<and> \<not> truthy (get_knowledge_answer blank_env ''cement'')
   \<and> calls (on_submit blank_env True ''cement'' []) =
       [Knowledge_Lookup ''cement'', Model_Call (build_prompt ''cement'' [])]
   \<and> build_prompt ''cement'' [] \<noteq> spec_prompt [] ''cement''
   \<and> take 5 (build_prompt ''cement'' []) = [CHR 0x0A] @ ''    ''
   \<and> \<not> prefix ''You are a civil engineer expert.'' (build_prompt ''cement'' [])
   \<and> get_knowledge_answer sample_env ''bricks'' = None
   \<and> snd (generate_response sample_env ''bricks'' []) =
       [Knowledge_Lookup ''bricks'', Model_Call (build_prompt ''bricks'' [])]
   \<and> build_prompt ''bricks'' [] \<noteq> spec_prompt [] ''bricks''"
proof (intro conjI)
  show "is_construction_related blank_env ''cement''"
    by code_simp
  show "\<not> truthy (get_knowledge_answer blank_env ''cement'')"
    by code_simp
  show "calls (on_submit blank_env True ''cement'' []) =
       [Knowledge_Lookup ''cement'', Model_Call (build_prompt ''cement'' [])]"
    by code_simp
  show "build_prompt ''cement'' [] \<noteq> spec_prompt [] ''cement''"
    by code_simp
  show "take 5 (build_prompt ''cement'' []) = [CHR 0x0A] @ ''    ''"
    by code_simp
  show "\<not> prefix ''You are a civil engineer expert.'' (build_prompt ''cement'' [])"
    by code_simp
  show "get_knowledge_answer sample_env ''bricks'' = None"
    by code_simp
  show "snd (generate_response sample_env ''bricks'' []) =
       [Knowledge_Lookup ''bricks'', Model_Call (build_prompt ''bricks'' [])]"
    by code_simp
  show "build_prompt ''bricks'' [] \<noteq> spec_prompt [] ''bricks''"
    by code_simp
qed

subsection \<open>The advisory and the history\<close>

text \<open>
  C8, as the code has it. The \<^verbatim>\<open>Did you mean\<close> message is shown when the corrected
  text passes the Relevance Filter and differs from the raw input once both are
  lowercased. It is not shown with the refusal, whose branch has no \<^verbatim>\<open>st.info\<close>.
  The message is never stored: the history is left as it was or grows by the user turn
  and the bot turn.
\<close>

theorem advisory_only_when_relevant:
  assumes "submitted" and "user_input \<noteq> []"
    and "correct_spelling e user_input = Inr corrected"
  shows "infos (on_submit e submitted user_input h) =
       (if is_construction_related e corrected \<and> str_lower e corrected \<noteq> str_lower e user_input
        then [did_you_mean corrected] else [])
     \<and> (history (on_submit e submitted user_input h) = h
        \<or> (\<exists>answer. outcome (on_submit e submitted user_input h) = Answered answer
             \<and> history (on_submit e submitted user_input h) =
                 h @ [(speaker_you, user_input), (speaker_bot, answer)]))"
proof (cases "is_construction_related e corrected")
  case False
  with assms show ?thesis by (simp add: on_submit_refused)
next
  case True
  obtain res cs where g: "generate_response e corrected h = (res, cs)"
    by (cases "generate_response e corrected h")
  show ?thesis
  proof (cases res)
    case (Inl x)
    with assms True g show ?thesis by (simp add: on_submit_raised)
  next
    case (Inr a)
    with assms True g show ?thesis by (simp add: on_submit_answered)
  qed
qed

theorem advisory_only_when_relevant_witness:
  "infos (on_submit sample_env True ''what is cemant'' sample_history)
     = [[CHR 0xF0, CHR 0x9F, CHR 0x94, CHR 0xA7] @ '' Did you mean: **what is cement** ?'']
   \<and> history (on_submit sample_env True ''what is cemant'' sample_history)
     = sample_history @ [(speaker_you, ''what is cemant''),
                         (speaker_bot, ''Cement is a binding material.'')]"
proof -
  have c: "correct_spelling sample_env ''what is cemant'' = Inr ''what is cement''"
    by (simp add: correct_spelling_def sample_env_def sample_correct_def)
  have r: "is_construction_related sample_env ''what is cement''"
    by code_simp
  have d: "str_lower sample_env ''what is cement'' \<noteq> str_lower sample_env ''what is cemant''"
    by code_simp
  have "True" and "''what is cemant'' \<noteq> []"
    by simp_all
  from advisory_only_when_relevant [OF this c, of sample_history] r d
  have i: "infos (on_submit sample_env True ''what is cemant'' sample_history)
     = [[CHR 0xF0, CHR 0x9F, CHR 0x94, CHR 0xA7] @ '' Did you mean: **what is cement** ?'']"
    by (simp add: did_you_mean_def)
  have "history (on_submit sample_env True ''what is cemant'' sample_history)
     = sample_history @ [(speaker_you, ''what is cemant''),
                         (speaker_bot, ''Cement is a binding material.'')]"
    by code_simp
  with i show ?thesis by simp
qed

theorem advisory_only_when_relevant_counterexample:
  "correct_spelling sample_env ''helo'' = Inr ''hello''
   \<and> str_lower sample_env ''hello'' \<noteq> str_lower sample_env ''helo''
   \<and> outcome (on_submit sample_env True ''helo'' []) = Answered refusal
   \<and> infos (on_submit sample_env True ''helo'' []) = []"
proof (intro conjI)
  show "correct_spelling sample_env ''helo'' = Inr ''hello''"
    by (simp add: correct_spelling_def sample_env_def sample_correct_def)
  show "str_lower sample_env ''hello'' \<noteq> str_lower sample_env ''helo''"
    by code_simp
  show "outcome (on_submit sample_env True ''helo'' []) = Answered refusal"
    by code_simp
  show "infos (on_submit sample_env True ''helo'' []) = []"
    by code_simp
qed



end
